theory Spec2Isabelle
  imports Complex_Main "HOL-Library.Product_Lexorder"
begin

section \<open>Strings of the host language\<close>

text \<open>
  A JavaScript string is modelled as a \<open>string\<close> (a list of characters). The model is exact
  for ASCII text: case mapping changes the ASCII letters only, and white space is the ASCII
  white space (tab, line feed, vertical tab, form feed, carriage return, space). Characters
  beyond ASCII are carried through unchanged.
\<close>

definition lowerLetters :: string where
  "lowerLetters = ''abcdefghijklmnopqrstuvwxyz''"

definition upperLetters :: string where
  "upperLetters = ''ABCDEFGHIJKLMNOPQRSTUVWXYZ''"

definition toUpperChar :: "char \<Rightarrow> char" where
  "toUpperChar c = (case map_of (zip lowerLetters upperLetters) c of Some u \<Rightarrow> u | None \<Rightarrow> c)"

definition toLowerChar :: "char \<Rightarrow> char" where
  "toLowerChar c = (case map_of (zip upperLetters lowerLetters) c of Some l \<Rightarrow> l | None \<Rightarrow> c)"

definition toUpperCase :: "string \<Rightarrow> string" where
  "toUpperCase s = map toUpperChar s"

definition toLowerCase :: "string \<Rightarrow> string" where
  "toLowerCase s = map toLowerChar s"

text \<open>\<open>s.split(sep)\<close> for a one-character separator: the empty string gives one empty piece.\<close>

fun split :: "char \<Rightarrow> string \<Rightarrow> string list" where
  "split sep [] = [[]]"
| "split sep (c # cs) =
     (if c = sep then [] # split sep cs
      else (case split sep cs of [] \<Rightarrow> [[c]] | w # ws \<Rightarrow> (c # w) # ws))"

text \<open>\<open>pieces.join(sep)\<close>.\<close>

fun join :: "string \<Rightarrow> string list \<Rightarrow> string" where
  "join sep [] = []"
| "join sep [w] = w"
| "join sep (w # ws) = w @ sep @ join sep ws"

text \<open>\<open>xs.map((x, index) => f(x, index))\<close>.\<close>

definition mapIndexed :: "('a \<Rightarrow> nat \<Rightarrow> 'b) \<Rightarrow> 'a list \<Rightarrow> 'b list" where
  "mapIndexed f xs = map (\<lambda>(i, x). f x i) (enumerate 0 xs)"

text \<open>\<open>s.charAt(0)\<close> is the first character as a string, empty for the empty string;
  \<open>s.slice(1)\<close> is the rest.\<close>

definition charAt0 :: "string \<Rightarrow> string" where
  "charAt0 s = take 1 s"

definition slice1 :: "string \<Rightarrow> string" where
  "slice1 s = drop 1 s"

text \<open>\<open>s.trim()\<close>, \<open>s.startsWith(c)\<close>, \<open>s.endsWith(c)\<close>, \<open>s.slice(start, end)\<close> (a negative index
  counts from the end) and \<open>s.replace(/,/g, '')\<close>.\<close>

definition isWhiteSpace :: "char \<Rightarrow> bool" where
  "isWhiteSpace c = (c \<in> set [CHR 0x09, CHR 0x0A, CHR 0x0B, CHR 0x0C, CHR 0x0D, CHR '' ''])"

definition trim :: "string \<Rightarrow> string" where
  "trim s = rev (dropWhile isWhiteSpace (rev (dropWhile isWhiteSpace s)))"

definition startsWith :: "string \<Rightarrow> char \<Rightarrow> bool" where
  "startsWith s c = (case s of [] \<Rightarrow> False | d # _ \<Rightarrow> d = c)"

definition endsWith :: "string \<Rightarrow> char \<Rightarrow> bool" where
  "endsWith s c = (case rev s of [] \<Rightarrow> False | d # _ \<Rightarrow> d = c)"

definition sliceIndex :: "nat \<Rightarrow> int \<Rightarrow> nat" where
  "sliceIndex len i = (if i < 0 then nat (max (int len + i) 0) else min (nat i) len)"

definition slice :: "string \<Rightarrow> int \<Rightarrow> int \<Rightarrow> string" where
  "slice s start end =
     (let from = sliceIndex (length s) start; to = sliceIndex (length s) end
      in take (to - from) (drop from s))"

definition removeCommas :: "string \<Rightarrow> string" where
  "removeCommas s = filter (\<lambda>c. c \<noteq> CHR '','') s"

section \<open>Text Caser\<close>

definition minorWords :: "string list" where
  "minorWords = [''of'', ''and'', ''in'', ''on'', ''at'', ''to'', ''for'', ''by'', ''with'',
                 ''a'', ''an'', ''the'', ''or'', ''nor'']"

text \<open>The callback that \<open>toTitleCase\<close> maps over the words, with the word's index.\<close>

definition titleWord :: "string \<Rightarrow> nat \<Rightarrow> string" where
  "titleWord word index =
     (let lower = toLowerCase word in
      if index > 0 \<and> lower \<in> set minorWords then lower
      else toUpperCase (charAt0 word) @ toLowerCase (slice1 word))"

definition toTitleCase :: "string \<Rightarrow> string" where
  "toTitleCase str = join '' '' (mapIndexed titleWord (split CHR '' '' str))"

subsection \<open>The rule in the words of the specification\<close>

text \<open>
  The rule is written here on its own, without the functions of the component: the words of
  a string are the pieces between single spaces; the first word is capitalised (its first
  character in upper case, the remainder in lower case); a later word is kept fully
  lowercase when it is a minor word, and is capitalised otherwise; the words are put back
  with one space before each later word.
\<close>

fun translate :: "string \<Rightarrow> string \<Rightarrow> char \<Rightarrow> char" where
  "translate (x # xs) (y # ys) c = (if c = x then y else translate xs ys c)"
| "translate _ _ c = c"

definition upperLetter :: "char \<Rightarrow> char" where
  "upperLetter = translate ''abcdefghijklmnopqrstuvwxyz'' ''ABCDEFGHIJKLMNOPQRSTUVWXYZ''"

definition lowerLetter :: "char \<Rightarrow> char" where
  "lowerLetter = translate ''ABCDEFGHIJKLMNOPQRSTUVWXYZ'' ''abcdefghijklmnopqrstuvwxyz''"

definition minorWordSet :: "string set" where
  "minorWordSet = {''of'', ''and'', ''in'', ''on'', ''at'', ''to'', ''for'', ''by'', ''with'',
                   ''a'', ''an'', ''the'', ''or'', ''nor''}"

fun spaceWords :: "string \<Rightarrow> string \<Rightarrow> string list" where
  "spaceWords current [] = [rev current]"
| "spaceWords current (c # cs) =
     (if c = CHR '' '' then rev current # spaceWords [] cs else spaceWords (c # current) cs)"

definition capitalizeWord :: "string \<Rightarrow> string" where
  "capitalizeWord w = (case w of [] \<Rightarrow> [] | c # cs \<Rightarrow> upperLetter c # map lowerLetter cs)"

definition isMinorWord :: "string \<Rightarrow> bool" where
  "isMinorWord w = (map lowerLetter w \<in> minorWordSet)"

definition laterWord :: "string \<Rightarrow> string" where
  "laterWord w = (if isMinorWord w then map lowerLetter w else capitalizeWord w)"

definition titleCaseSpec :: "string \<Rightarrow> string" where
  "titleCaseSpec s =
     (case spaceWords [] s of
        [] \<Rightarrow> []
      | first # rest \<Rightarrow>
          capitalizeWord first @ concat (map (\<lambda>w. CHR '' '' # laterWord w) rest))"

section \<open>Numbers of the host language\<close>

text \<open>
  A JavaScript number is a finite value, one of the two zeros, an infinity or NaN. A finite
  value is an exact rational here: \<open>Fin 0\<close> is the positive zero and \<open>NegZero\<close> the
  negative one. Arithmetic on finite values is exact; the rounding, overflow and underflow
  of the binary64 format are not part of the model.
\<close>

datatype jsnum = Fin rat | NegZero | PosInf | NegInf | NaN

definition isNegative :: "jsnum \<Rightarrow> bool" where
  "isNegative x = (case x of Fin r \<Rightarrow> r < 0 | NegZero \<Rightarrow> True | NegInf \<Rightarrow> True | _ \<Rightarrow> False)"

definition magnitude :: "jsnum \<Rightarrow> rat" where
  "magnitude x = (case x of Fin r \<Rightarrow> \<bar>r\<bar> | _ \<Rightarrow> 0)"

definition isFinite :: "jsnum \<Rightarrow> bool" where
  "isFinite x = (case x of Fin _ \<Rightarrow> True | NegZero \<Rightarrow> True | _ \<Rightarrow> False)"

definition isZero :: "jsnum \<Rightarrow> bool" where
  "isZero x = (x = Fin 0 \<or> x = NegZero)"

text \<open>The finite number with the given sign bit and magnitude.\<close>

definition signed :: "bool \<Rightarrow> rat \<Rightarrow> jsnum" where
  "signed neg m =
     (if m = 0 then (if neg then NegZero else Fin 0) else Fin (if neg then - \<bar>m\<bar> else \<bar>m\<bar>))"

text \<open>Unary minus, \<open>*\<close>, \<open>/\<close> and binary \<open>-\<close>.\<close>

definition jsNeg :: "jsnum \<Rightarrow> jsnum" where
  "jsNeg x =
     (case x of NaN \<Rightarrow> NaN | PosInf \<Rightarrow> NegInf | NegInf \<Rightarrow> PosInf
      | _ \<Rightarrow> signed (\<not> isNegative x) (magnitude x))"

definition jsMul :: "jsnum \<Rightarrow> jsnum \<Rightarrow> jsnum" where
  "jsMul a b =
     (if a = NaN \<or> b = NaN then NaN
      else if isFinite a \<and> isFinite b
        then signed (isNegative a \<noteq> isNegative b) (magnitude a * magnitude b)
      else if isZero a \<or> isZero b then NaN
      else if isNegative a \<noteq> isNegative b then NegInf else PosInf)"

definition jsDiv :: "jsnum \<Rightarrow> jsnum \<Rightarrow> jsnum" where
  "jsDiv a b =
     (if a = NaN \<or> b = NaN then NaN
      else if isFinite a \<and> isFinite b then
        (if isZero b then
           (if isZero a then NaN
            else if isNegative a \<noteq> isNegative b then NegInf else PosInf)
         else signed (isNegative a \<noteq> isNegative b) (magnitude a / magnitude b))
      else if isFinite a then signed (isNegative a \<noteq> isNegative b) 0
      else if isFinite b then (if isNegative a \<noteq> isNegative b then NegInf else PosInf)
      else NaN)"

definition jsSub :: "jsnum \<Rightarrow> jsnum \<Rightarrow> jsnum" where
  "jsSub a b =
     (if a = NaN \<or> b = NaN then NaN
      else if isFinite a \<and> isFinite b then
        (let d = (case a of Fin r \<Rightarrow> r | _ \<Rightarrow> 0) - (case b of Fin r \<Rightarrow> r | _ \<Rightarrow> 0)
         in if d = 0 then (if a = NegZero \<and> b = Fin 0 then NegZero else Fin 0) else Fin d)
      else if isFinite b then a
      else if isFinite a then jsNeg b
      else if a = b then NaN else a)"

text \<open>\<open>Math.round\<close> rounds to the nearest integer, a tie towards plus infinity, and keeps the
  sign of its argument on a zero result; \<open>Math.abs\<close>; \<open>isNaN\<close>; strict inequality \<open>!==\<close>.\<close>

definition mathRound :: "jsnum \<Rightarrow> jsnum" where
  "mathRound x = (case x of Fin r \<Rightarrow> signed (r < 0) (of_int \<lfloor>r + 1 / 2\<rfloor>) | _ \<Rightarrow> x)"

definition mathAbs :: "jsnum \<Rightarrow> jsnum" where
  "mathAbs x =
     (case x of NaN \<Rightarrow> NaN | PosInf \<Rightarrow> PosInf | NegInf \<Rightarrow> PosInf | _ \<Rightarrow> Fin (magnitude x))"

definition isNaN :: "jsnum \<Rightarrow> bool" where
  "isNaN x = (x = NaN)"

definition strictNotEqual :: "jsnum \<Rightarrow> jsnum \<Rightarrow> bool" where
  "strictNotEqual x y = (x = NaN \<or> y = NaN \<or> (x \<noteq> y \<and> \<not> (isZero x \<and> isZero y)))"

subsection \<open>Decimal digits\<close>

definition isDigit :: "char \<Rightarrow> bool" where
  "isDigit c = (48 \<le> (of_char c :: nat) \<and> (of_char c :: nat) \<le> 57)"

definition digitVal :: "char \<Rightarrow> nat" where
  "digitVal c = of_char c - 48"

definition digitChar :: "nat \<Rightarrow> char" where
  "digitChar d = ''0123456789'' ! d"

definition digitsVal :: "string \<Rightarrow> nat" where
  "digitsVal ds = foldl (\<lambda>n c. 10 * n + digitVal c) 0 ds"

definition allDigits :: "string \<Rightarrow> bool" where
  "allDigits ds = (ds \<noteq> [] \<and> list_all isDigit ds)"

subsection \<open>\<open>Number(string)\<close>\<close>

text \<open>
  The conversion of a string to a number: white space around the literal is ignored, the
  empty string is zero, and a string that is no numeric literal is NaN. A literal is a
  signed decimal literal (digits with an optional fraction and an optional exponent, or
  \<open>Infinity\<close>) or an unsigned binary, octal or hexadecimal integer.
\<close>

definition hexDigitVal :: "char \<Rightarrow> nat option" where
  "hexDigitVal c =
     map_of (zip ''0123456789abcdefABCDEF''
               [0, 1, 2, 3, 4, 5, 6, 7, 8, 9, 10, 11, 12, 13, 14, 15, 10, 11, 12, 13, 14, 15]) c"

definition radixVal :: "nat \<Rightarrow> string \<Rightarrow> nat option" where
  "radixVal radix ds =
     (if ds \<noteq> [] \<and> list_all (\<lambda>c. case hexDigitVal c of Some d \<Rightarrow> d < radix | None \<Rightarrow> False) ds
      then Some (foldl (\<lambda>n c. radix * n + (case hexDigitVal c of Some d \<Rightarrow> d | None \<Rightarrow> 0)) 0 ds)
      else None)"

definition nonDecimalIntegerLiteral :: "string \<Rightarrow> nat option" where
  "nonDecimalIntegerLiteral s =
     (case s of
        z # p # ds \<Rightarrow>
          if z \<noteq> CHR ''0'' then None
          else if p = CHR ''x'' \<or> p = CHR ''X'' then radixVal 16 ds
          else if p = CHR ''o'' \<or> p = CHR ''O'' then radixVal 8 ds
          else if p = CHR ''b'' \<or> p = CHR ''B'' then radixVal 2 ds
          else None
      | _ \<Rightarrow> None)"

definition signedInteger :: "string \<Rightarrow> int option" where
  "signedInteger s =
     (case s of
        [] \<Rightarrow> None
      | c # ds \<Rightarrow>
          if c = CHR ''+'' then (if allDigits ds then Some (int (digitsVal ds)) else None)
          else if c = CHR ''-'' then (if allDigits ds then Some (- int (digitsVal ds)) else None)
          else if allDigits s then Some (int (digitsVal s)) else None)"

definition exponentPart :: "string \<Rightarrow> int option" where
  "exponentPart s =
     (case s of
        [] \<Rightarrow> Some 0
      | c # t \<Rightarrow> if c = CHR ''e'' \<or> c = CHR ''E'' then signedInteger t else None)"

definition scale10 :: "rat \<Rightarrow> int \<Rightarrow> rat" where
  "scale10 r e = (if 0 \<le> e then r * 10 ^ nat e else r / 10 ^ nat (- e))"

definition strUnsignedDecimalLiteral :: "string \<Rightarrow> jsnum" where
  "strUnsignedDecimalLiteral s =
     (if s = ''Infinity'' then PosInf
      else
        let ip = takeWhile isDigit s;
            r1 = dropWhile isDigit s;
            fp = (case r1 of [] \<Rightarrow> [] | c # t \<Rightarrow> if c = CHR ''.'' then takeWhile isDigit t else []);
            r2 = (case r1 of [] \<Rightarrow> [] | c # t \<Rightarrow> if c = CHR ''.'' then dropWhile isDigit t else r1)
        in if ip = [] \<and> fp = [] then NaN
           else (case exponentPart r2 of
                   None \<Rightarrow> NaN
                 | Some e \<Rightarrow> Fin (scale10 (of_nat (digitsVal (ip @ fp)) / 10 ^ length fp) e)))"

definition Number :: "string \<Rightarrow> jsnum" where
  "Number str =
     (let t = trim str in
      if t = [] then Fin 0
      else (case nonDecimalIntegerLiteral t of
              Some n \<Rightarrow> Fin (of_nat n)
            | None \<Rightarrow>
                (case t of
                   [] \<Rightarrow> Fin 0
                 | c # u \<Rightarrow>
                     if c = CHR ''+'' then strUnsignedDecimalLiteral u
                     else if c = CHR ''-'' then jsNeg (strUnsignedDecimalLiteral u)
                     else strUnsignedDecimalLiteral t)))"

subsection \<open>Numbers to strings\<close>

text \<open>The decimal digits of a natural number, \<open>0\<close> for zero, and its \<open>k\<close> low digits,
  zero-padded to exactly \<open>k\<close> characters.\<close>

fun natDigits :: "nat \<Rightarrow> string" where
  "natDigits n = (if n < 10 then [digitChar n] else natDigits (n div 10) @ [digitChar (n mod 10)])"

fun fixedDigits :: "nat \<Rightarrow> nat \<Rightarrow> string" where
  "fixedDigits k n = (if k = 0 then [] else fixedDigits (k - 1) (n div 10) @ [digitChar (n mod 10)])"

text \<open>A comma before every group of three digits, counted from the right.\<close>

fun groupThousands :: "string \<Rightarrow> string" where
  "groupThousands ds =
     (if length ds \<le> 3 then ds
      else groupThousands (take (length ds - 3) ds) @ '','' @ drop (length ds - 3) ds)"

text \<open>Trailing zeros are removed from a fraction, but never among its first \<open>m\<close> digits.\<close>

definition stripZeros :: "nat \<Rightarrow> string \<Rightarrow> string" where
  "stripZeros m ds = take m ds @ rev (dropWhile (\<lambda>c. c = CHR ''0'') (rev (drop m ds)))"

text \<open>
  A magnitude rounded to \<open>maxFD\<close> fractional digits, a tie away from zero: the digits of the
  integer part, and the fraction with at least \<open>minFD\<close> digits.
\<close>

definition roundedUnits :: "rat \<Rightarrow> nat \<Rightarrow> nat" where
  "roundedUnits m maxFD = nat \<lfloor>m * 10 ^ maxFD + 1 / 2\<rfloor>"

definition integerDigits :: "rat \<Rightarrow> nat \<Rightarrow> string" where
  "integerDigits m maxFD = natDigits (roundedUnits m maxFD div 10 ^ maxFD)"

definition fractionDigits :: "rat \<Rightarrow> nat \<Rightarrow> nat \<Rightarrow> string" where
  "fractionDigits m minFD maxFD =
     stripZeros minFD (fixedDigits maxFD (roundedUnits m maxFD mod 10 ^ maxFD))"

definition withFraction :: "string \<Rightarrow> string \<Rightarrow> string" where
  "withFraction ip fp = (if fp = [] then ip else ip @ CHR ''.'' # fp)"

definition infinitySymbol :: string where
  "infinitySymbol = [CHR 0xE2, CHR 0x88, CHR 0x9E]"

text \<open>A finite number in the notation of the locale: sign, grouped integer digits, fraction.\<close>

definition formatFinite :: "bool \<Rightarrow> rat \<Rightarrow> nat \<Rightarrow> nat \<Rightarrow> string" where
  "formatFinite negative m minFD maxFD =
     (if negative then ''-'' else [])
     @ withFraction (groupThousands (integerDigits m maxFD)) (fractionDigits m minFD maxFD)"

datatype jserror = RangeError | TypeError

text \<open>
  \<open>x.toLocaleString(undefined, {minimumFractionDigits, maximumFractionDigits})\<close> in a locale
  that writes numbers as en-US does: a minus sign for a number whose sign bit is set (the
  negative zero and a negative number that rounds to zero included), the integer digits in
  groups of three separated by commas, a full stop, the fraction. The digit options must lie
  between 0 and 100, the minimum not above the maximum; the formatter throws a RangeError
  otherwise. When the caller gives the maximum alone, the minimum is 0.
\<close>

definition toLocaleString :: "jsnum \<Rightarrow> int \<Rightarrow> int \<Rightarrow> jserror + string" where
  "toLocaleString x minimumFractionDigits maximumFractionDigits =
     (if minimumFractionDigits < 0 \<or> 100 < minimumFractionDigits
         \<or> maximumFractionDigits < 0 \<or> 100 < maximumFractionDigits
         \<or> maximumFractionDigits < minimumFractionDigits
      then Inl RangeError
      else Inr (case x of
                  NaN \<Rightarrow> ''NaN''
                | PosInf \<Rightarrow> infinitySymbol
                | NegInf \<Rightarrow> ''-'' @ infinitySymbol
                | _ \<Rightarrow>
                   formatFinite (isNegative x) (magnitude x) (nat minimumFractionDigits)
                     (nat maximumFractionDigits)))"

text \<open>
  \<open>String(x)\<close> for a number. The component converts array indices only (in cell ids), and
  the digits of a non-negative integer below \<open>10^21\<close> are exact here. For other finite numbers
  the digits depend on the binary64 representation; they are given at no more than 20
  fractional digits.
\<close>

definition numberToString :: "jsnum \<Rightarrow> string" where
  "numberToString x =
     (case x of
        NaN \<Rightarrow> ''NaN''
      | PosInf \<Rightarrow> ''Infinity''
      | NegInf \<Rightarrow> ''-Infinity''
      | NegZero \<Rightarrow> ''0''
      | Fin r \<Rightarrow>
          (if r < 0 then ''-'' else [])
          @ withFraction (integerDigits \<bar>r\<bar> 20) (fractionDigits \<bar>r\<bar> 0 20))"

section \<open>Data model\<close>

text \<open>A cell value is a string or a number; reading a key that a row lacks gives \<open>undefined\<close>.\<close>

datatype jsval = Undefined | Str string | Num jsnum

type_synonym RowRecord = "string \<rightharpoonup> jsval"

record TableData =
  headers :: "string list"
  rows :: "RowRecord list"
  title :: "string option"
  summary :: "string option"

record ExtractedData =
  tables :: "TableData list"

record ProcessingOptions =
  multiplier :: jsnum
  decimalPlaces :: int
  customInstruction :: string
  forceNegative :: bool
  titleCase :: bool

definition jsString :: "jsval \<Rightarrow> string" where
  "jsString v = (case v of Undefined \<Rightarrow> ''undefined'' | Str s \<Rightarrow> s | Num n \<Rightarrow> numberToString n)"

section \<open>Value Normalizer and Transform Pipeline\<close>

definition cleanFloat :: "jsnum \<Rightarrow> jsnum" where
  "cleanFloat num = jsDiv (mathRound (jsMul num (Fin 10000000000))) (Fin 10000000000)"

text \<open>
  The first part of \<open>getFormattedValue\<close>, up to \<open>isNum = true\<close>: the numeric reading of the
  value (\<open>Inr\<close>), or the value that the function returns at once for text (\<open>Inl\<close>).
\<close>

definition parseInput :: "ProcessingOptions \<Rightarrow> jsval \<Rightarrow> jsval + jsnum" where
  "parseInput options val =
     (case val of
        Num n \<Rightarrow> Inr n
      | _ \<Rightarrow>
         (let cleaned = trim (jsString val);
              isNegative = startsWith cleaned CHR ''('' \<and> endsWith cleaned CHR '')'';
              cleaned = (if isNegative then trim (slice cleaned 1 (- 1)) else cleaned);
              cleaned = removeCommas cleaned
          in if cleaned = [] \<or> isNaN (Number cleaned) then
               (case val of
                  Str s \<Rightarrow> if titleCase options then Inl (Str (toTitleCase s)) else Inl val
                | _ \<Rightarrow> Inl val)
             else Inr (if isNegative then jsNeg (Number cleaned) else Number cleaned)))"

text \<open>The multiplier, the epsilon cleanup and the forced sign.\<close>

definition transformValue :: "ProcessingOptions \<Rightarrow> jsnum \<Rightarrow> jsnum" where
  "transformValue options numVal =
     (let converted = cleanFloat (jsMul numVal (multiplier options))
      in if forceNegative options \<and> strictNotEqual converted (Fin 0)
         then jsNeg (mathAbs converted) else converted)"

text \<open>The formatting logic at the end of \<open>getFormattedValue\<close>.\<close>

definition renderValue :: "ProcessingOptions \<Rightarrow> jsnum \<Rightarrow> jserror + string" where
  "renderValue options converted =
     (if decimalPlaces options = - 1 then toLocaleString converted 0 20
      else toLocaleString converted (decimalPlaces options) (decimalPlaces options))"

definition getFormattedValue :: "ProcessingOptions \<Rightarrow> jsval \<Rightarrow> bool \<Rightarrow> jserror + jsval" where
  "getFormattedValue options val returnNumber =
     (case parseInput options val of
        Inl unchanged \<Rightarrow> Inr unchanged
      | Inr numVal \<Rightarrow>
          (let converted = transformValue options numVal
           in if returnNumber then Inr (Num converted)
              else (case renderValue options converted of
                      Inl e \<Rightarrow> Inl e
                    | Inr text \<Rightarrow> Inr (Str text))))"

definition formatValue :: "ProcessingOptions \<Rightarrow> jsval \<Rightarrow> jserror + jsval" where
  "formatValue options val = getFormattedValue options val False"

definition formatHeader :: "ProcessingOptions \<Rightarrow> string \<Rightarrow> string" where
  "formatHeader options header = (if titleCase options then toTitleCase header else header)"

section \<open>Export Serializer\<close>

text \<open>
  A copy operation hands one text to the clipboard. Its result here is the text written
  (\<open>Inr (Some text)\<close>), nothing when the operation returns early (\<open>Inr None\<close>), or the error
  it throws.
\<close>

fun mapResult :: "('a \<Rightarrow> jserror + 'b) \<Rightarrow> 'a list \<Rightarrow> jserror + 'b list" where
  "mapResult f [] = Inr []"
| "mapResult f (x # xs) =
     (case f x of
        Inl e \<Rightarrow> Inl e
      | Inr y \<Rightarrow> (case mapResult f xs of Inl e \<Rightarrow> Inl e | Inr ys \<Rightarrow> Inr (y # ys)))"

text \<open>\<open>text.replace(/,/g, '')\<close> on the displayed value of a cell: only a string has the method.\<close>

definition handleCopy :: "jsval \<Rightarrow> jserror + string option" where
  "handleCopy text = (case text of Str s \<Rightarrow> Inr (Some (removeCommas s)) | _ \<Rightarrow> Inl TypeError)"

text \<open>\<open>row[header]\<close>: a missing key reads as \<open>undefined\<close>.\<close>

definition rowValue :: "RowRecord \<Rightarrow> string \<Rightarrow> jsval" where
  "rowValue row header = (case row header of None \<Rightarrow> Undefined | Some v \<Rightarrow> v)"

text \<open>\<open>String(getFormattedValue(rawVal)).replace(/,/g, '')\<close>, as both table exports compute it.\<close>

definition exportText :: "ProcessingOptions \<Rightarrow> jsval \<Rightarrow> jserror + string" where
  "exportText options rawVal =
     (case getFormattedValue options rawVal False of
        Inl e \<Rightarrow> Inl e
      | Inr v \<Rightarrow> Inr (removeCommas (jsString v)))"

definition exportRow :: "ProcessingOptions \<Rightarrow> string list \<Rightarrow> RowRecord \<Rightarrow> jserror + string list" where
  "exportRow options hs row = mapResult (\<lambda>header. exportText options (rowValue row header)) hs"

definition handleCopyTable :: "ProcessingOptions \<Rightarrow> TableData option \<Rightarrow> jserror + string option" where
  "handleCopyTable options activeTable =
     (case activeTable of
        None \<Rightarrow> Inr None
      | Some t \<Rightarrow>
          (let headersToExport = map (formatHeader options) (headers t);
               headerRow = join [CHR 0x09] headersToExport
           in case mapResult (exportRow options (headers t)) (rows t) of
                Inl e \<Rightarrow> Inl e
              | Inr cells \<Rightarrow>
                  Inr (Some (headerRow @ [CHR 0x0A]
                             @ join [CHR 0x0A] (map (join [CHR 0x09]) cells)))))"

subsection \<open>Cell ids and the selection order\<close>

text \<open>The id of a cell is \<open>`${rowIdx}-${colIdx}`\<close>; the indices are array indices.\<close>

definition cellId :: "nat \<Rightarrow> nat \<Rightarrow> string" where
  "cellId rowIdx colIdx =
     numberToString (Fin (of_nat rowIdx)) @ ''-'' @ numberToString (Fin (of_nat colIdx))"

text \<open>\<open>const [r, c] = id.split('-').map(Number)\<close>: a missing element is \<open>undefined\<close>.\<close>

definition element :: "'a list \<Rightarrow> nat \<Rightarrow> 'a option" where
  "element xs i = (if i < length xs then Some (xs ! i) else None)"

definition idParts :: "string \<Rightarrow> jsnum option \<times> jsnum option" where
  "idParts cid = (let parts = map Number (split CHR ''-'' cid) in (element parts 0, element parts 1))"

text \<open>On a number or \<open>undefined\<close>: \<open>x !== y\<close> and \<open>x - y\<close> (\<open>undefined\<close> counts as NaN in
  arithmetic).\<close>

definition notSame :: "jsnum option \<Rightarrow> jsnum option \<Rightarrow> bool" where
  "notSame x y =
     (case (x, y) of (Some a, Some b) \<Rightarrow> strictNotEqual a b | (None, None) \<Rightarrow> False | _ \<Rightarrow> True)"

definition minus :: "jsnum option \<Rightarrow> jsnum option \<Rightarrow> jsnum" where
  "minus x y = jsSub (case x of Some a \<Rightarrow> a | None \<Rightarrow> NaN) (case y of Some b \<Rightarrow> b | None \<Rightarrow> NaN)"

definition compareIds :: "string \<Rightarrow> string \<Rightarrow> jsnum" where
  "compareIds a b =
     (let (rA, cA) = idParts a; (rB, cB) = idParts b
      in if notSame rA rB then minus rA rB else minus cA cB)"

text \<open>
  \<open>Array.prototype.sort(compare)\<close> is a stable sort that puts \<open>a\<close> after \<open>b\<close> when
  \<open>compare(a, b) > 0\<close>; it is modelled as insertion from the right.
\<close>

definition isPositive :: "jsnum \<Rightarrow> bool" where
  "isPositive v = (case v of Fin r \<Rightarrow> 0 < r | PosInf \<Rightarrow> True | _ \<Rightarrow> False)"

fun insertBy :: "('a \<Rightarrow> 'a \<Rightarrow> jsnum) \<Rightarrow> 'a \<Rightarrow> 'a list \<Rightarrow> 'a list" where
  "insertBy compare x [] = [x]"
| "insertBy compare x (y # ys) =
     (if isPositive (compare x y) then y # insertBy compare x ys else x # y # ys)"

definition sortBy :: "('a \<Rightarrow> 'a \<Rightarrow> jsnum) \<Rightarrow> 'a list \<Rightarrow> 'a list" where
  "sortBy compare xs = foldr (insertBy compare) xs []"

text \<open>\<open>xs[i]\<close> for a number or \<open>undefined\<close> as index: an element when the index is a natural
  number below the length, \<open>undefined\<close> otherwise.\<close>

definition arrayGet :: "'a list \<Rightarrow> jsnum option \<Rightarrow> 'a option" where
  "arrayGet xs i =
     (case i of
        Some (Fin r) \<Rightarrow>
          if 0 \<le> r \<and> of_int \<lfloor>r\<rfloor> = r then element xs (nat \<lfloor>r\<rfloor>) else None
      | Some NegZero \<Rightarrow> element xs 0
      | _ \<Rightarrow> None)"

text \<open>The value that the copy of the selection emits for one id. Reading a property of a row
  that does not exist throws; a header that does not exist is the property key
  \<open>undefined\<close>.\<close>

definition selectedValue :: "ProcessingOptions \<Rightarrow> TableData \<Rightarrow> string \<Rightarrow> jserror + string" where
  "selectedValue options activeTable cid =
     (let (r, c) = idParts cid;
          header = (case arrayGet (headers activeTable) c of Some h \<Rightarrow> h | None \<Rightarrow> ''undefined'')
      in case arrayGet (rows activeTable) r of
           None \<Rightarrow> Inl TypeError
         | Some row \<Rightarrow> exportText options (rowValue row header))"

definition handleCopySelected ::
  "ProcessingOptions \<Rightarrow> TableData option \<Rightarrow> string list \<Rightarrow> jserror + string option" where
  "handleCopySelected options activeTable selectedCells =
     (case activeTable of
        None \<Rightarrow> Inr None
      | Some t \<Rightarrow>
          (let sortedIds = sortBy compareIds selectedCells
           in case mapResult (selectedValue options t) sortedIds of
                Inl e \<Rightarrow> Inl e
              | Inr values \<Rightarrow> Inr (Some (join [CHR 0x0A] values))))"

section \<open>Table Selection Model\<close>

text \<open>
  The state of the view: the data it was given, the index of the active table and the set of
  selected cell ids, in insertion order. Two effects follow the state: one resets the index
  and the selection when the data changes, one clears the selection when the index changes.
\<close>

record ViewState =
  data :: ExtractedData
  activeTableIndex :: nat
  selectedCells :: "string list"

datatype event =
    SetActiveTableIndex nat
  | ToggleCellSelection nat nat
  | ReplaceData ExtractedData
  | SelectionCopied

definition initialState :: "ExtractedData \<Rightarrow> ViewState" where
  "initialState d = \<lparr> data = d, activeTableIndex = 0, selectedCells = [] \<rparr>"

definition toggleCellSelection :: "nat \<Rightarrow> nat \<Rightarrow> string list \<Rightarrow> string list" where
  "toggleCellSelection rowIdx colIdx selected =
     (let cid = cellId rowIdx colIdx
      in if cid \<in> set selected then removeAll cid selected else selected @ [cid])"

fun step :: "ViewState \<Rightarrow> event \<Rightarrow> ViewState" where
  "step s (SetActiveTableIndex idx) =
     (if idx = activeTableIndex s then s
      else s\<lparr> activeTableIndex := idx, selectedCells := [] \<rparr>)"
| "step s (ToggleCellSelection rowIdx colIdx) =
     s\<lparr> selectedCells := toggleCellSelection rowIdx colIdx (selectedCells s) \<rparr>"
| "step s (ReplaceData d) = s\<lparr> data := d, activeTableIndex := 0, selectedCells := [] \<rparr>"
| "step s SelectionCopied = s\<lparr> selectedCells := [] \<rparr>"

definition run :: "ExtractedData \<Rightarrow> event list \<Rightarrow> ViewState" where
  "run d events = foldl step (initialState d) events"

definition activeTable :: "ViewState \<Rightarrow> TableData option" where
  "activeTable s = element (tables (data s)) (activeTableIndex s)"

section \<open>Adapter of the extraction result\<close>

text \<open>
  \<open>processImages\<close> turns each raw row, an optional array of strings aligned with the
  headers, into a row record: every header gets a key, with the empty string where the
  array is absent or too short. A later header of the same name overwrites an earlier one.
\<close>

record RawTable =
  rawTitle :: "string option"
  rawSummary :: "string option"
  rawHeaders :: "string list"
  rawRows :: "string list option list"

definition valueAt :: "string list option \<Rightarrow> nat \<Rightarrow> string" where
  "valueAt vals index =
     (case vals of
        None \<Rightarrow> []
      | Some vs \<Rightarrow> if index < length vs then vs ! index else [])"

text \<open>The callback of \<open>headers.forEach\<close>, on the pair of an index and its header.\<close>

definition putValue :: "string list option \<Rightarrow> RowRecord \<Rightarrow> nat \<times> string \<Rightarrow> RowRecord" where
  "putValue vals obj entry = obj(snd entry \<mapsto> Str (valueAt vals (fst entry)))"

definition rowObject :: "string list \<Rightarrow> string list option \<Rightarrow> RowRecord" where
  "rowObject hs vals = foldl (putValue vals) Map.empty (enumerate 0 hs)"

definition processedTable :: "RawTable \<Rightarrow> TableData" where
  "processedTable t =
     \<lparr> headers = rawHeaders t, rows = map (rowObject (rawHeaders t)) (rawRows t),
       title = rawTitle t, summary = rawSummary t \<rparr>"

text \<open>A raw row lacks a value for the header at a position when it has no value array, or
  one that ends before the position.\<close>

definition lacksValue :: "string list option \<Rightarrow> nat \<Rightarrow> bool" where
  "lacksValue vals index = (case vals of None \<Rightarrow> True | Some vs \<Rightarrow> length vs \<le> index)"

section \<open>Notions used in the statements\<close>

text \<open>The options that the application starts with.\<close>

definition initialOptions :: ProcessingOptions where
  "initialOptions =
     \<lparr> multiplier = Fin 1, decimalPlaces = 2, customInstruction = [], forceNegative = False,
       titleCase = False \<rparr>"

text \<open>A string in accounting parentheses, and a numeric string without a sign: digits with
  thousands commas and at most one decimal point.\<close>

definition parenthesized :: "string \<Rightarrow> bool" where
  "parenthesized s = (startsWith s CHR ''('' \<and> endsWith s CHR '')'')"

definition unsignedNumeric :: "string \<Rightarrow> bool" where
  "unsignedNumeric s =
     (list_all (\<lambda>c. isDigit c \<or> c = CHR ''.'' \<or> c = CHR '','') s
      \<and> list_ex isDigit s
      \<and> length (filter (\<lambda>c. c = CHR ''.'') s) \<le> 1)"

text \<open>A cell is a pair of a row index and a column index; its id, and the text that an
  export emits for it when it lies in the table: its formatted value without commas.\<close>

definition cellIdOf :: "nat \<times> nat \<Rightarrow> string" where
  "cellIdOf cell = cellId (fst cell) (snd cell)"

definition cellText :: "ProcessingOptions \<Rightarrow> TableData \<Rightarrow> nat \<times> nat \<Rightarrow> jserror + string" where
  "cellText options t cell =
     exportText options (rowValue (rows t ! fst cell) (headers t ! snd cell))"





section \<open>Evaluation of the model on concrete inputs\<close>

lemma floor_rat_numeral [simp]:
  "\<lfloor>numeral a / numeral b :: rat\<rfloor> = numeral a div numeral b"
  by (metis floor_divide_of_int_eq of_int_numeral)

lemma floor_rat_neg_numeral [simp]:
  "\<lfloor>- (numeral a / numeral b) :: rat\<rfloor> = - numeral a div numeral b"
  by (metis divide_minus_left floor_divide_of_int_eq of_int_neg_numeral of_int_numeral)

lemma floor_rat_one_numeral [simp]: "\<lfloor>1 / numeral b :: rat\<rfloor> = 1 div numeral b"
  by (metis floor_divide_of_int_eq of_int_1 of_int_numeral)

lemma floor_rat_neg_one_numeral [simp]:
  "\<lfloor>- (1 / numeral b) :: rat\<rfloor> = - 1 div numeral b"
  by (metis divide_minus_left floor_divide_of_int_eq of_int_1 of_int_minus of_int_numeral)

declare natDigits.simps [simp del] fixedDigits.simps [simp del] groupThousands.simps [simp del]

lemmas string_eval =
  trim_def isWhiteSpace_def startsWith_def endsWith_def slice_def sliceIndex_def
  removeCommas_def toUpperCase_def toLowerCase_def toUpperChar_def toLowerChar_def
  lowerLetters_def upperLetters_def charAt0_def slice1_def mapIndexed_def
  toTitleCase_def titleWord_def minorWords_def

lemmas number_eval =
  isNegative_def magnitude_def isFinite_def isZero_def signed_def jsNeg_def jsMul_def
  jsDiv_def jsSub_def mathRound_def mathAbs_def isNaN_def strictNotEqual_def
  isDigit_def digitVal_def digitChar_def digitsVal_def allDigits_def hexDigitVal_def
  radixVal_def nonDecimalIntegerLiteral_def signedInteger_def exponentPart_def scale10_def
  strUnsignedDecimalLiteral_def Number_def stripZeros_def roundedUnits_def
  integerDigits_def fractionDigits_def withFraction_def infinitySymbol_def formatFinite_def
  toLocaleString_def numberToString_def natDigits.simps fixedDigits.simps
  groupThousands.simps

lemmas format_eval =
  jsString_def cleanFloat_def parseInput_def transformValue_def renderValue_def
  getFormattedValue_def formatValue_def formatHeader_def

lemmas export_eval =
  handleCopy_def rowValue_def exportText_def exportRow_def handleCopyTable_def cellId_def
  element_def idParts_def notSame_def minus_def compareIds_def isPositive_def sortBy_def
  arrayGet_def selectedValue_def handleCopySelected_def toggleCellSelection_def
  initialState_def run_def activeTable_def

section \<open>Properties of the Text Caser\<close>

lemma toUpperChar_letter: "toUpperChar c = upperLetter c"
  by (simp add: toUpperChar_def upperLetter_def lowerLetters_def upperLetters_def)

lemma toLowerChar_letter: "toLowerChar c = lowerLetter c"
  by (simp add: toLowerChar_def lowerLetter_def lowerLetters_def upperLetters_def)

lemma minorWords_set: "set minorWords = minorWordSet"
  by (simp add: minorWords_def minorWordSet_def)

lemma split_not_Nil: "split sep s \<noteq> []"
  by (induction s) (auto split: list.splits)

lemma spaceWords_split:
  "spaceWords current s
   = (rev current @ hd (split CHR '' '' s)) # tl (split CHR '' '' s)"
proof (induction s arbitrary: current)
  case Nil
  then show ?case by simp
next
  case (Cons c cs)
  obtain w ws where w: "split CHR '' '' cs = w # ws"
    using split_not_Nil [of "CHR '' ''" cs] by (cases "split CHR '' '' cs") auto
  with Cons show ?case
    by simp
qed

lemma spaceWords_eq: "spaceWords [] s = split CHR '' '' s"
  using split_not_Nil [of "CHR '' ''" s] by (simp add: spaceWords_split)

lemma join_space: "join '' '' (w # ws) = w @ concat (map (\<lambda>v. CHR '' '' # v) ws)"
  by (induction ws arbitrary: w) simp_all

lemma capitalize_eq: "toUpperCase (charAt0 w) @ toLowerCase (slice1 w) = capitalizeWord w"
  by (cases w)
     (simp_all add: toUpperCase_def toLowerCase_def charAt0_def slice1_def capitalizeWord_def
        toUpperChar_letter toLowerChar_letter)

lemma toLowerCase_letters: "toLowerCase w = map lowerLetter w"
  by (simp add: toLowerCase_def toLowerChar_letter)

lemma titleWord_first: "titleWord w 0 = capitalizeWord w"
  by (simp add: titleWord_def capitalize_eq)

lemma titleWord_later: "0 < i \<Longrightarrow> titleWord w i = laterWord w"
  using capitalize_eq [of w]
  by (simp add: titleWord_def laterWord_def isMinorWord_def minorWords_set
      toLowerCase_letters)

lemma enumerate_later:
  "0 < n \<Longrightarrow> map (\<lambda>(i, w). titleWord w i) (enumerate n ws) = map laterWord ws"
  by (induction ws arbitrary: n) (simp_all add: titleWord_later)

lemma toTitleCase_spec: "toTitleCase s = titleCaseSpec s"
proof -
  obtain first rest where w: "split CHR '' '' s = first # rest"
    using split_not_Nil [of "CHR '' ''" s] by (cases "split CHR '' '' s") auto
  have "toTitleCase s = join '' '' (capitalizeWord first # map laterWord rest)"
    by (simp add: toTitleCase_def mapIndexed_def w enumerate_later titleWord_first)
  also have "\<dots> = capitalizeWord first @ concat (map (\<lambda>w. CHR '' '' # laterWord w) rest)"
    by (simp add: join_space comp_def)
  finally show ?thesis
    by (simp add: titleCaseSpec_def spaceWords_eq w)
qed

lemma title_examples:
  "toTitleCase ''TOTAL REVENUE'' = ''Total Revenue''"
  "toTitleCase ''cost of goods'' = ''Cost of Goods''"
  "toTitleCase ''of mice AND men'' = ''Of Mice and Men''"
  "toTitleCase ''THE   end'' = ''The   End''"
  by (simp_all add: string_eval)

text \<open>
  Claim C8. For every input string, the title caser splits on single spaces, capitalises the
  first character and lowercases the remainder of every word, except that a word of the
  minor-word set is kept fully lowercase unless it is the first word of the string. The
  rule is the one written out above, with its own letter tables, word set and word
  splitting; the instances are those of the specification: an all-uppercase header, a minor
  word inside a string, and a minor word in first position.
\<close>

theorem toTitleCase_refines_spec:
  "toTitleCase s = titleCaseSpec s
   \<and> toTitleCase ''TOTAL REVENUE'' = ''Total Revenue''
   \<and> toTitleCase ''cost of goods'' = ''Cost of Goods''
   \<and> toTitleCase ''of mice AND men'' = ''Of Mice and Men''
   \<and> toTitleCase ''THE   end'' = ''The   End''"
  by (intro conjI toTitleCase_spec title_examples)


section \<open>Properties of the Value Normalizer\<close>

lemma trim_unchanged:
  assumes "s \<noteq> []" "\<not> isWhiteSpace (hd s)" "\<not> isWhiteSpace (last s)"
  shows "trim s = s"
proof -
  from assms have a: "dropWhile isWhiteSpace s = s"
    by (cases s) simp_all
  from assms have "rev s \<noteq> []" "\<not> isWhiteSpace (hd (rev s))"
    by (simp_all add: hd_rev)
  then have "dropWhile isWhiteSpace (rev s) = rev s"
    by (cases "rev s") simp_all
  with a show ?thesis
    by (simp add: trim_def)
qed

lemma trim_parens: "trim (CHR ''('' # t @ '')'') = CHR ''('' # t @ '')''"
  by (rule trim_unchanged) (simp_all add: isWhiteSpace_def)

lemma slice_parens: "slice (CHR ''('' # t @ '')'') 1 (- 1) = t"
  by (simp add: slice_def sliceIndex_def)

lemma parseInput_plain:
  assumes "\<not> parenthesized (trim s)"
  shows "parseInput options (Str s) =
     (let cleaned = removeCommas (trim s)
      in if cleaned = [] \<or> isNaN (Number cleaned)
         then Inl (Str (if titleCase options then toTitleCase s else s))
         else Inr (Number cleaned))"
  using assms unfolding parenthesized_def
  by (cases "startsWith (trim s) CHR 0x28"; cases "endsWith (trim s) CHR 0x29";
      simp add: parseInput_def jsString_def Let_def)

lemma parseInput_parens:
  "parseInput options (Str (CHR ''('' # t @ '')'')) =
     (let cleaned = removeCommas (trim t)
      in if cleaned = [] \<or> isNaN (Number cleaned)
         then Inl (Str (if titleCase options then toTitleCase (CHR ''('' # t @ '')'')
                        else CHR ''('' # t @ '')''))
         else Inr (jsNeg (Number cleaned)))"
proof -
  have "startsWith (CHR ''('' # t @ '')'') CHR ''(''" "endsWith (CHR ''('' # t @ '')'') CHR '')''"
    by (simp_all add: startsWith_def endsWith_def)
  then show ?thesis
    by (simp add: parseInput_def jsString_def Let_def trim_parens slice_parens)
qed

lemma parseInput_parens_negates:
  assumes "\<not> parenthesized (trim t)" "parseInput options (Str t) = Inr v"
  shows "parseInput options (Str (CHR ''('' # t @ '')'')) = Inr (jsNeg v)"
  using assms by (auto simp add: parseInput_plain parseInput_parens Let_def split: if_splits)

lemma jsNeg_negative:
  assumes "isNegative v"
  shows "\<not> isNegative (jsNeg v)"
  using assms by (cases v) (auto simp add: isNegative_def jsNeg_def signed_def magnitude_def)

lemma digit_not_whitespace: "isDigit c \<Longrightarrow> \<not> isWhiteSpace c"
  by (auto simp add: isDigit_def isWhiteSpace_def)

lemma digit_not_special:
  assumes "isDigit c \<or> c = CHR ''.''"
  shows "\<not> isWhiteSpace c" "c \<noteq> CHR ''+''" "c \<noteq> CHR ''-''" "c \<noteq> CHR ''I''"
    "c \<noteq> CHR ''x''" "c \<noteq> CHR ''X''" "c \<noteq> CHR ''o''" "c \<noteq> CHR ''O''"
    "c \<noteq> CHR ''b''" "c \<noteq> CHR ''B''"
  using assms by (auto simp add: isDigit_def isWhiteSpace_def)

lemma nonDecimal_none:
  assumes "list_all (\<lambda>c. isDigit c \<or> c = CHR ''.'') d"
  shows "nonDecimalIntegerLiteral d = None"
proof (cases d)
  case Nil
  then show ?thesis by (simp add: nonDecimalIntegerLiteral_def)
next
  case (Cons z t)
  show ?thesis
  proof (cases t)
    case Nil
    with Cons show ?thesis by (simp add: nonDecimalIntegerLiteral_def)
  next
    case (Cons p ds)
    with assms \<open>d = z # t\<close> have "isDigit p \<or> p = CHR ''.''"
      by simp
    from digit_not_special(5-10) [OF this] Cons \<open>d = z # t\<close> show ?thesis
      by (simp add: nonDecimalIntegerLiteral_def)
  qed
qed

lemma takeWhile_all: "list_all P xs \<Longrightarrow> takeWhile P xs = xs"
  by (induction xs) simp_all

lemma dropWhile_all: "list_all P xs \<Longrightarrow> dropWhile P xs = []"
  by (induction xs) simp_all

lemma strUnsigned_digits:
  assumes all: "list_all (\<lambda>c. isDigit c \<or> c = CHR ''.'') d"
    and ex: "list_ex isDigit d"
    and dots: "length (filter (\<lambda>c. c = CHR ''.'') d) \<le> 1"
  shows "\<exists>r. 0 \<le> r \<and> strUnsignedDecimalLiteral d = Fin r"
proof -
  define ip where "ip = takeWhile isDigit d"
  define r1 where "r1 = dropWhile isDigit d"
  have d: "d = ip @ r1"
    by (simp add: ip_def r1_def)
  have noI: "d \<noteq> ''Infinity''"
  proof
    assume "d = ''Infinity''"
    with all show False by (simp add: isDigit_def)
  qed
  show ?thesis
  proof (cases r1)
    case Nil
    with d ex have "ip \<noteq> []"
      by auto
    with Nil noI show ?thesis
      unfolding strUnsignedDecimalLiteral_def Let_def ip_def [symmetric] r1_def [symmetric]
      by (simp add: exponentPart_def scale10_def)
  next
    case (Cons c t)
    have "\<not> isDigit c"
      using Cons hd_dropWhile [of isDigit d] by (simp add: r1_def)
    moreover have "isDigit c \<or> c = CHR ''.''"
      using all d Cons by simp
    ultimately have c: "c = CHR ''.''"
      by simp
    have "length (filter (\<lambda>c. c = CHR ''.'') t) = 0"
      using dots d Cons c by simp
    then have nodot: "\<forall>x \<in> set t. x \<noteq> CHR ''.''"
      by (simp add: filter_empty_conv)
    have "list_all (\<lambda>c. isDigit c \<or> c = CHR ''.'') t"
      using all d Cons by simp
    with nodot have t: "list_all isDigit t"
      by (auto simp add: list_all_iff)
    have "ip \<noteq> [] \<or> t \<noteq> []"
      using ex d Cons c by (auto simp add: list_ex_iff isDigit_def)
    with Cons c noI t show ?thesis
      unfolding strUnsignedDecimalLiteral_def Let_def ip_def [symmetric] r1_def [symmetric]
      by (auto simp add: exponentPart_def scale10_def takeWhile_all dropWhile_all)
  qed
qed

lemma Number_unsigned:
  assumes all: "list_all (\<lambda>c. isDigit c \<or> c = CHR ''.'') d"
    and ex: "list_ex isDigit d"
    and dots: "length (filter (\<lambda>c. c = CHR ''.'') d) \<le> 1"
  shows "\<exists>r. 0 \<le> r \<and> Number d = Fin r"
proof -
  from ex have ne: "d \<noteq> []"
    by auto
  from all ne have "isDigit (hd d) \<or> hd d = CHR ''.''" "isDigit (last d) \<or> last d = CHR ''.''"
    by (simp_all add: list_all_iff)
  note h = digit_not_special [OF this(1)] and l = digit_not_special(1) [OF this(2)]
  have tr: "trim d = d"
    using ne h(1) l by (rule trim_unchanged)
  obtain c u where cu: "d = c # u"
    using ne by (cases d) auto
  with h have "c \<noteq> CHR ''+''" "c \<noteq> CHR ''-''"
    by simp_all
  moreover have "trim (c # u) = c # u"
    using tr cu by simp
  ultimately show ?thesis
    using cu strUnsigned_digits [OF all ex dots] nonDecimal_none [OF all]
    by (auto simp add: Number_def Let_def)
qed

lemma unsigned_cleaned:
  assumes "unsignedNumeric s"
  shows "list_all (\<lambda>c. isDigit c \<or> c = CHR ''.'') (removeCommas s)"
    "list_ex isDigit (removeCommas s)"
    "length (filter (\<lambda>c. c = CHR ''.'') (removeCommas s)) \<le> 1"
proof -
  show "list_all (\<lambda>c. isDigit c \<or> c = CHR ''.'') (removeCommas s)"
    using assms by (auto simp add: unsignedNumeric_def removeCommas_def list_all_iff)
  show "list_ex isDigit (removeCommas s)"
    using assms by (auto simp add: unsignedNumeric_def removeCommas_def list_ex_iff isDigit_def)
  have "filter (\<lambda>c. c = CHR ''.'') (removeCommas s) = filter (\<lambda>c. c = CHR ''.'') s"
    by (induction s) (simp_all add: removeCommas_def)
  with assms show "length (filter (\<lambda>c. c = CHR ''.'') (removeCommas s)) \<le> 1"
    by (simp add: unsignedNumeric_def)
qed

lemma unsigned_trim:
  assumes "unsignedNumeric s"
  shows "trim s = s" "\<not> parenthesized s"
proof -
  from assms have ne: "s \<noteq> []"
    by (auto simp add: unsignedNumeric_def)
  from assms ne have "isDigit (hd s) \<or> hd s = CHR ''.'' \<or> hd s = CHR '',''"
    "isDigit (last s) \<or> last s = CHR ''.'' \<or> last s = CHR '',''"
    by (simp_all add: unsignedNumeric_def list_all_iff)
  then have "\<not> isWhiteSpace (hd s)" "\<not> isWhiteSpace (last s)" "hd s \<noteq> CHR ''(''"
    by (auto simp add: isDigit_def isWhiteSpace_def)
  with ne show "trim s = s" "\<not> parenthesized s"
    by (auto simp add: trim_unchanged parenthesized_def startsWith_def split: list.splits)
qed

text \<open>
  Claim C1. For every numeric string \<open>s\<close> without a sign (digits, thousands commas, at most
  one decimal point), the parenthesised form \<open>(s)\<close> normalises to the negation of the number
  that \<open>s\<close> normalises to: the parentheses are stripped, the commas removed, the rest parsed,
  and the remembered sign applied.
\<close>

theorem parenthesized_is_negation:
  assumes "unsignedNumeric s"
  shows "\<exists>r. 0 \<le> r \<and> Number (removeCommas s) = Fin r
           \<and> parseInput options (Str s) = Inr (Fin r)
           \<and> parseInput options (Str (''('' @ s @ '')'')) = Inr (jsNeg (Fin r))"
proof -
  from Number_unsigned [OF unsigned_cleaned [OF assms]]
  obtain r where r: "0 \<le> r" "Number (removeCommas s) = Fin r"
    by blast
  from unsigned_cleaned(2) [OF assms] have ne: "removeCommas s \<noteq> []"
    by auto
  have plain: "parseInput options (Str s) = Inr (Fin r)"
    using unsigned_trim [OF assms] r ne
    by (simp add: parseInput_plain isNaN_def)
  then have "parseInput options (Str (CHR ''('' # s @ '')'')) = Inr (jsNeg (Fin r))"
    using unsigned_trim [OF assms] by (simp add: parseInput_parens_negates)
  with r plain show ?thesis
    by auto
qed

theorem parenthesized_is_negation_witness:
  "unsignedNumeric ''1,234.50''
   \<and> parseInput initialOptions (Str ''1,234.50'') = Inr (Fin (2469 / 2))
   \<and> parseInput initialOptions (Str ''(1,234.50)'') = Inr (Fin (- (2469 / 2)))"
  using parenthesized_is_negation [of "''1,234.50''" initialOptions]
  by (simp add: unsignedNumeric_def initialOptions_def string_eval number_eval format_eval)

text \<open>
  Claim C4 states that a parenthesised string with a negative number inside, such as
  \<open>(-5)\<close>, normalises to a negative value. The normalizer negates whatever the inner text
  parses to, so \<open>(-5)\<close> normalises to the positive 5.
\<close>

theorem parenthesized_minus_five_is_positive:
  "parseInput initialOptions (Str ''(-5)'') = Inr (Fin 5) \<and> \<not> isNegative (Fin 5)"
  by (simp add: initialOptions_def string_eval number_eval format_eval)

text \<open>
  Claim C4, amended. When the text inside the parentheses is not itself parenthesised and
  normalises to a negative number \<open>v\<close>, both sign sources apply: the parenthesised string
  normalises to the negation of \<open>v\<close>, which is not negative.
\<close>

theorem parenthesized_negative_is_negated_again:
  assumes "\<not> parenthesized (trim t)"
    and "parseInput options (Str t) = Inr v"
    and "isNegative v"
  shows "parseInput options (Str (''('' @ t @ '')'')) = Inr (jsNeg v) \<and> \<not> isNegative (jsNeg v)"
  using assms by (simp add: parseInput_parens_negates jsNeg_negative)

theorem parenthesized_negative_is_negated_again_witness:
  "\<not> parenthesized (trim ''-1,234.5'')
   \<and> parseInput initialOptions (Str ''-1,234.5'') = Inr (Fin (- (2469 / 2)))
   \<and> isNegative (Fin (- (2469 / 2)))
   \<and> parseInput initialOptions (Str ''(-1,234.5)'') = Inr (Fin (2469 / 2))
   \<and> \<not> isNegative (Fin (2469 / 2))"
  using parenthesized_negative_is_negated_again
    [of "''-1,234.5''" initialOptions "Fin (- (2469 / 2))"]
  by (simp add: parenthesized_def initialOptions_def string_eval number_eval format_eval)

section \<open>Properties of the Transform Pipeline\<close>

text \<open>
  Claim C3. With the forced negative sign enabled, an input equal to zero is never rendered
  as a negative zero. The input \<open>(0)\<close> normalises to the negative zero, which is equal to
  zero, so the guard \<open>converted !== 0\<close> leaves it alone, and it is rendered as \<open>-0.00\<close>.
\<close>

theorem forced_negative_renders_negative_zero:
  "parseInput (initialOptions\<lparr>forceNegative := True\<rparr>) (Str ''(0)'') = Inr NegZero
   \<and> \<not> strictNotEqual NegZero (Fin 0)
   \<and> getFormattedValue (initialOptions\<lparr>forceNegative := True\<rparr>) (Str ''(0)'') False
       = Inr (Str ''-0.00'')"
  by (simp add: initialOptions_def string_eval number_eval format_eval)

section \<open>Properties of the Export Serializer\<close>

text \<open>
  A row record without a key for some header, which the adapter never builds, reads as
  \<open>undefined\<close> there, and the copy of the table would write that word.
\<close>

lemma absent_key_is_exported_as_undefined:
  "handleCopyTable initialOptions
     (Some \<lparr> headers = [''A'', ''B''], rows = [[''A'' \<mapsto> Str ''x'']], title = None,
             summary = None \<rparr>)
   = Inr (Some (''A'' @ [CHR 0x09] @ ''B'' @ [CHR 0x0A] @ ''x'' @ [CHR 0x09] @ ''undefined''))"
  by (simp add: initialOptions_def string_eval number_eval format_eval export_eval)

lemma removeCommas_no_comma: "CHR '','' \<notin> set (removeCommas s)"
  by (simp add: removeCommas_def)

lemma exportText_no_comma: "exportText options v = Inr x \<Longrightarrow> CHR '','' \<notin> set x"
  by (auto simp add: exportText_def removeCommas_no_comma split: sum.splits)

lemma mapResult_all:
  assumes "mapResult f xs = Inr ys" and "\<And>x y. f x = Inr y \<Longrightarrow> P y"
  shows "list_all P ys"
  using assms
proof (induction xs arbitrary: ys)
  case Nil
  then show ?case by simp
next
  case (Cons x xs)
  then show ?case
    by (auto split: sum.splits)
qed

lemma selectedValue_no_comma: "selectedValue options t cid = Inr x \<Longrightarrow> CHR '','' \<notin> set x"
  by (auto simp add: selectedValue_def Let_def exportText_no_comma
      split: prod.splits option.splits)

lemma exportRow_no_comma:
  "exportRow options hs row = Inr xs \<Longrightarrow> list_all (\<lambda>x. CHR '','' \<notin> set x) xs"
  unfolding exportRow_def by (erule mapResult_all) (rule exportText_no_comma)

lemma exportText_text:
  assumes "parseInput options (Str s) = Inl v"
  shows "exportText options (Str s)
         = Inr (removeCommas (if titleCase options then toTitleCase s else s))"
proof -
  from assms have "v = Str (if titleCase options then toTitleCase s else s)"
    by (auto simp add: parseInput_def Let_def split: if_splits)
  with assms show ?thesis
    by (simp add: exportText_def getFormattedValue_def jsString_def)
qed

text \<open>
  Claim C10. Every copy operation removes every comma from each cell value it emits, the
  commas of text included. The copy of one cell writes the displayed text without its
  commas; each value in the copy of the selection and each cell of a body row in the copy
  of the table is free of commas; and a text cell is exported as its displayed text (the
  text itself, or its title-cased form when that option is on) with all commas deleted.
\<close>

theorem exports_remove_every_comma:
  "handleCopy (Str s) = Inr (Some (removeCommas s))
   \<and> CHR '','' \<notin> set (removeCommas s)
   \<and> (handleCopySelected options (Some t) selected = Inr (Some out) \<longrightarrow>
        (\<exists>values. mapResult (selectedValue options t) (sortBy compareIds selected) = Inr values
           \<and> out = join [CHR 0x0A] values
           \<and> list_all (\<lambda>x. CHR '','' \<notin> set x) values))
   \<and> (handleCopyTable options (Some t) = Inr (Some out) \<longrightarrow>
        (\<exists>cells. mapResult (exportRow options (headers t)) (rows t) = Inr cells
           \<and> out = join [CHR 0x09] (map (formatHeader options) (headers t)) @ [CHR 0x0A]
                   @ join [CHR 0x0A] (map (join [CHR 0x09]) cells)
           \<and> list_all (list_all (\<lambda>x. CHR '','' \<notin> set x)) cells))
   \<and> (parseInput options (Str s) = Inl v \<longrightarrow>
        exportText options (Str s)
        = Inr (removeCommas (if titleCase options then toTitleCase s else s)))"
proof (intro conjI impI)
  show "handleCopy (Str s) = Inr (Some (removeCommas s))"
    by (simp add: handleCopy_def)
  show "CHR '','' \<notin> set (removeCommas s)"
    by (rule removeCommas_no_comma)
next
  assume "handleCopySelected options (Some t) selected = Inr (Some out)"
  then obtain vs where
    v: "mapResult (selectedValue options t) (sortBy compareIds selected) = Inr vs"
    and out: "out = join [CHR 0x0A] vs"
    by (auto simp add: handleCopySelected_def Let_def split: sum.splits)
  from v have "list_all (\<lambda>x. CHR '','' \<notin> set x) vs"
    by (rule mapResult_all) (rule selectedValue_no_comma)
  with v out show "\<exists>values.
      mapResult (selectedValue options t) (sortBy compareIds selected) = Inr values
      \<and> out = join [CHR 0x0A] values \<and> list_all (\<lambda>x. CHR '','' \<notin> set x) values"
    by blast
next
  assume "handleCopyTable options (Some t) = Inr (Some out)"
  then obtain cells where
    c: "mapResult (exportRow options (headers t)) (rows t) = Inr cells"
    and out: "out = join [CHR 0x09] (map (formatHeader options) (headers t)) @ [CHR 0x0A]
                   @ join [CHR 0x0A] (map (join [CHR 0x09]) cells)"
    by (auto simp add: handleCopyTable_def Let_def split: sum.splits)
  from c have "list_all (list_all (\<lambda>x. CHR '','' \<notin> set x)) cells"
    by (rule mapResult_all) (rule exportRow_no_comma)
  with c out show "\<exists>cells. mapResult (exportRow options (headers t)) (rows t) = Inr cells
      \<and> out = join [CHR 0x09] (map (formatHeader options) (headers t)) @ [CHR 0x0A]
              @ join [CHR 0x0A] (map (join [CHR 0x09]) cells)
      \<and> list_all (list_all (\<lambda>x. CHR '','' \<notin> set x)) cells"
    by blast
next
  assume "parseInput options (Str s) = Inl v"
  then show "exportText options (Str s)
      = Inr (removeCommas (if titleCase options then toTitleCase s else s))"
    by (rule exportText_text)
qed

theorem exports_remove_every_comma_witness:
  "handleCopy (Str ''Revenue, net'') = Inr (Some ''Revenue net'')
   \<and> parseInput initialOptions (Str ''Revenue, net'') = Inl (Str ''Revenue, net'')
   \<and> exportText initialOptions (Str ''Revenue, net'') = Inr ''Revenue net''
   \<and> handleCopySelected initialOptions
        (Some \<lparr> headers = [''Item''], rows = [[''Item'' \<mapsto> Str ''Revenue, net'']],
                title = None, summary = None \<rparr>) [''0-0'']
      = Inr (Some ''Revenue net'')
   \<and> handleCopyTable initialOptions
        (Some \<lparr> headers = [''Item''], rows = [[''Item'' \<mapsto> Str ''Revenue, net'']],
                title = None, summary = None \<rparr>)
      = Inr (Some (''Item'' @ [CHR 0x0A] @ ''Revenue net''))"
  using exports_remove_every_comma [of "''Revenue, net''" initialOptions
      "\<lparr> headers = [''Item''], rows = [[''Item'' \<mapsto> Str ''Revenue, net'']],
         title = None, summary = None \<rparr>" "[''0-0'']" "''Revenue net''" "Str ''Revenue, net''"]
  by (simp add: initialOptions_def string_eval number_eval format_eval export_eval)

lemma rowObject_last_wins:
  assumes "i < length hs" and "hs ! i = k"
    and "\<And>j. i \<le> j \<Longrightarrow> j < length hs \<Longrightarrow> valueAt vals (n + j) = v"
  shows "foldl (putValue vals) obj0 (enumerate n hs) k = Some (Str v)"
  using assms
proof (induction hs rule: rev_induct)
  case Nil
  then show ?case by simp
next
  case (snoc h hs)
  have step: "foldl (putValue vals) obj0 (enumerate n (hs @ [h]))
      = (foldl (putValue vals) obj0 (enumerate n hs))(h \<mapsto> Str (valueAt vals (n + length hs)))"
    by (simp add: enumerate_append_eq putValue_def)
  show ?case
  proof (cases "h = k")
    case True
    have "valueAt vals (n + length hs) = v"
      using snoc.prems(1) by (intro snoc.prems(3)) simp_all
    with True show ?thesis
      unfolding step by simp
  next
    case False
    with snoc.prems(1,2) have i: "i < length hs"
      by (cases "i = length hs") simp_all
    with snoc.prems(2) have "hs ! i = k"
      by (simp add: nth_append)
    moreover have "valueAt vals (n + j) = v" if "i \<le> j" "j < length hs" for j
      using that by (intro snoc.prems(3)) simp_all
    ultimately have "foldl (putValue vals) obj0 (enumerate n hs) k = Some (Str v)"
      using i by (intro snoc.IH)
    with False show ?thesis
      unfolding step by simp
  qed
qed

lemma rowObject_lacking:
  assumes "i < length hs" and "lacksValue vals i"
  shows "rowValue (rowObject hs vals) (hs ! i) = Str []"
proof -
  have "valueAt vals (0 + j) = []" if "i \<le> j" for j
    using that assms(2) by (auto simp add: valueAt_def lacksValue_def split: option.splits)
  then have "rowObject hs vals (hs ! i) = Some (Str [])"
    unfolding rowObject_def using assms(1) by (intro rowObject_last_wins) simp_all
  then show ?thesis
    by (simp add: rowValue_def)
qed

lemma empty_text: "getFormattedValue options (Str []) False = Inr (Str [])"
  by (simp add: getFormattedValue_def parseInput_def jsString_def string_eval)

lemma mapResult_nth:
  assumes "mapResult f xs = Inr ys" and "i < length xs"
  shows "f (xs ! i) = Inr (ys ! i)"
  using assms
proof (induction xs arbitrary: ys i)
  case Nil
  then show ?case by simp
next
  case (Cons x xs)
  then show ?case
    by (cases i) (auto split: sum.splits)
qed

text \<open>
  Claim C7. A row that lacks a value for some header is treated as holding the empty
  string, not as an error: the adapter gives the row the empty string under that header,
  formatting returns the empty string for it, and the copy of the table emits an empty cell
  at that position.
\<close>

theorem missing_value_is_empty_cell:
  assumes "i < length hs" and "lacksValue vals i"
  shows "rowValue (rowObject hs vals) (hs ! i) = Str []
       \<and> formatValue options (rowValue (rowObject hs vals) (hs ! i)) = Inr (Str [])
       \<and> exportText options (rowValue (rowObject hs vals) (hs ! i)) = Inr []
       \<and> (\<forall>cells. exportRow options hs (rowObject hs vals) = Inr cells \<longrightarrow> cells ! i = [])"
proof -
  have v: "rowValue (rowObject hs vals) (hs ! i) = Str []"
    using assms by (rule rowObject_lacking)
  have e: "exportText options (Str []) = Inr []"
    by (simp add: exportText_def empty_text jsString_def removeCommas_def)
  have "cells ! i = []" if "exportRow options hs (rowObject hs vals) = Inr cells" for cells
    using mapResult_nth [OF that [unfolded exportRow_def] assms(1)] by (simp add: v e)
  with v e show ?thesis
    by (simp add: formatValue_def empty_text)
qed

theorem missing_value_is_empty_cell_witness:
  "(1 :: nat) < length [''A'', ''B''] \<and> lacksValue (Some [''x'']) 1
   \<and> rowObject [''A'', ''B''] (Some [''x'']) ''B'' = Some (Str [])
   \<and> handleCopyTable initialOptions
        (Some (processedTable \<lparr> rawTitle = None, rawSummary = None, rawHeaders = [''A'', ''B''],
                                 rawRows = [Some [''x'']] \<rparr>))
      = Inr (Some (''A'' @ [CHR 0x09] @ ''B'' @ [CHR 0x0A] @ ''x'' @ [CHR 0x09]))"
  using missing_value_is_empty_cell [of 1 "[''A'', ''B'']" "Some [''x'']" initialOptions]
  by (simp add: lacksValue_def rowObject_def putValue_def valueAt_def processedTable_def initialOptions_def
      string_eval number_eval format_eval export_eval)

section \<open>Properties of the Table Selection Model\<close>

text \<open>
  Claim C9. The initial state is no selection on table 0. In every reachable state,
  switching the active table to another index gives an empty selection, and replacing the
  extracted data gives an empty selection and the active index 0.
\<close>

theorem selection_is_reset:
  "activeTableIndex (initialState d) = 0 \<and> selectedCells (initialState d) = []
   \<and> (idx \<noteq> activeTableIndex (run d events) \<longrightarrow>
        selectedCells (step (run d events) (SetActiveTableIndex idx)) = []
        \<and> activeTableIndex (step (run d events) (SetActiveTableIndex idx)) = idx)
   \<and> selectedCells (step (run d events) (ReplaceData d')) = []
   \<and> activeTableIndex (step (run d events) (ReplaceData d')) = 0
   \<and> data (step (run d events) (ReplaceData d')) = d'"
  by (simp add: initialState_def)

theorem selection_is_reset_witness:
  "selectedCells (run \<lparr>tables = []\<rparr> [ToggleCellSelection 2 1, ToggleCellSelection 0 0])
     = [''2-1'', ''0-0'']
   \<and> activeTableIndex (run \<lparr>tables = []\<rparr> [ToggleCellSelection 2 1, ToggleCellSelection 0 0]) = 0
   \<and> selectedCells
        (step (run \<lparr>tables = []\<rparr> [ToggleCellSelection 2 1, ToggleCellSelection 0 0])
           (SetActiveTableIndex 1)) = []
   \<and> selectedCells
        (step (run \<lparr>tables = []\<rparr> [ToggleCellSelection 2 1, ToggleCellSelection 0 0])
           (ReplaceData \<lparr>tables = []\<rparr>)) = []"
  using selection_is_reset [of "\<lparr>tables = []\<rparr>" 1
      "[ToggleCellSelection 2 1, ToggleCellSelection 0 0]" "\<lparr>tables = []\<rparr>"]
  by (simp add: string_eval number_eval export_eval)

section \<open>Digits, and the numbers they denote\<close>

lemma digit_cases: "d < 10 \<Longrightarrow> d \<in> {0, 1, 2, 3, 4, 5, 6, 7, 8, 9 :: nat}"
  by auto

lemma digitVal_digitChar: "d < 10 \<Longrightarrow> digitVal (digitChar d) = d"
  by (drule digit_cases) (auto simp add: digitVal_def digitChar_def)

lemma isDigit_digitChar: "d < 10 \<Longrightarrow> isDigit (digitChar d)"
  by (drule digit_cases) (auto simp add: isDigit_def digitChar_def)

lemma digitChar_zero: "d < 10 \<Longrightarrow> (digitChar d = CHR ''0'') = (d = 0)"
  by (drule digit_cases) (auto simp add: digitChar_def)

lemma isDigit_simps [simp]:
  "\<not> isDigit CHR ''.''" "\<not> isDigit CHR ''-''" "\<not> isDigit CHR '',''" "isDigit CHR ''0''"
  by (simp_all add: isDigit_def)

lemma digitsVal_Nil [simp]: "digitsVal [] = 0"
  by (simp add: digitsVal_def)

lemma digitsVal_snoc: "digitsVal (ds @ [c]) = 10 * digitsVal ds + digitVal c"
  by (simp add: digitsVal_def)


lemma natDigits_digits: "list_all isDigit (natDigits n)"
  by (induction n rule: natDigits.induct)
     (subst natDigits.simps, simp add: isDigit_digitChar)

lemma natDigits_not_Nil: "natDigits n \<noteq> []"
  by (subst natDigits.simps) simp

lemma natDigits_allDigits: "allDigits (natDigits n)"
  by (simp add: allDigits_def natDigits_digits natDigits_not_Nil)

lemma digitsVal_natDigits: "digitsVal (natDigits n) = n"
proof (induction n rule: natDigits.induct)
  case (1 n)
  show ?case
  proof (cases "n < 10")
    case True
    then show ?thesis
      by (subst natDigits.simps) (simp add: digitsVal_def digitVal_digitChar)
  next
    case False
    with 1 show ?thesis
      by (subst natDigits.simps) (simp add: digitsVal_snoc digitVal_digitChar)
  qed
qed




lemma fixedDigits_zero: "fixedDigits k 0 = replicate k CHR ''0''"
proof (induction k)
  case 0
  then show ?case by (subst fixedDigits.simps) simp
next
  case (Suc k)
  then show ?case
    by (subst fixedDigits.simps) (simp add: digitChar_def replicate_append_same)
qed

subsection \<open>The number that a decimal text denotes\<close>

lemma takeWhile_digits_dot:
  "list_all isDigit ip \<Longrightarrow> takeWhile isDigit (ip @ CHR ''.'' # fp) = ip"
  by (induction ip) simp_all

lemma dropWhile_digits_dot:
  "list_all isDigit ip \<Longrightarrow> dropWhile isDigit (ip @ CHR ''.'' # fp) = CHR ''.'' # fp"
  by (induction ip) simp_all

lemma strUnsigned_value:
  assumes ip: "allDigits ip" and fp: "list_all isDigit fp"
  shows "strUnsignedDecimalLiteral (withFraction ip fp)
         = Fin (of_nat (digitsVal (ip @ fp)) / 10 ^ length fp)"
proof -
  from ip have ne: "ip \<noteq> []" and all: "list_all isDigit ip"
    by (simp_all add: allDigits_def)
  have noI: "withFraction ip fp \<noteq> ''Infinity''"
  proof
    assume "withFraction ip fp = ''Infinity''"
    with ne all show False
      by (cases ip) (auto simp add: withFraction_def isDigit_def split: if_splits)
  qed
  show ?thesis
  proof (cases "fp = []")
    case True
    with ne all noI show ?thesis
      by (simp add: strUnsignedDecimalLiteral_def withFraction_def Let_def takeWhile_all
          dropWhile_all exponentPart_def scale10_def)
  next
    case False
    with ne all fp noI show ?thesis
      by (simp add: strUnsignedDecimalLiteral_def withFraction_def Let_def takeWhile_all
          dropWhile_all takeWhile_digits_dot dropWhile_digits_dot exponentPart_def scale10_def)
  qed
qed

lemma signed_nonneg: "0 \<le> q \<Longrightarrow> signed False q = Fin q"
  by (simp add: signed_def)

lemma jsNeg_Fin_nonneg: "0 \<le> q \<Longrightarrow> jsNeg (Fin q) = signed True q"
  by (simp add: jsNeg_def isNegative_def magnitude_def signed_def)

lemma Number_decimal:
  assumes ip: "allDigits ip" and fp: "list_all isDigit fp"
  shows "Number ((if neg then ''-'' else []) @ withFraction ip fp)
         = signed neg (of_nat (digitsVal (ip @ fp)) / 10 ^ length fp)"
proof -
  define body where "body = withFraction ip fp"
  define q :: rat where "q = of_nat (digitsVal (ip @ fp)) / 10 ^ length fp"
  have q: "0 \<le> q"
    by (simp add: q_def)
  from ip have ne: "ip \<noteq> []" and all: "list_all isDigit ip"
    by (simp_all add: allDigits_def)
  have val: "strUnsignedDecimalLiteral body = Fin q"
    unfolding body_def q_def using ip fp by (rule strUnsigned_value)
  have chars: "list_all (\<lambda>c. isDigit c \<or> c = CHR ''.'') body"
    using all fp by (auto simp add: body_def withFraction_def list_all_iff)
  have bne: "body \<noteq> []"
    using ne by (simp add: body_def withFraction_def)
  have hd: "isDigit (hd body)"
    using ne all by (cases ip) (simp_all add: body_def withFraction_def)
  have lst: "isDigit (last body)"
  proof (cases "fp = []")
    case True
    with ne all show ?thesis
      by (simp add: body_def withFraction_def list_all_iff)
  next
    case False
    with fp show ?thesis
      by (simp add: body_def withFraction_def list_all_iff)
  qed
  show ?thesis
  proof (cases neg)
    case False
    have tr: "trim body = body"
      using bne hd lst by (intro trim_unchanged) (simp_all add: digit_not_whitespace)
    obtain c u where cu: "body = c # u"
      using bne by (cases body) auto
    with hd have "c \<noteq> CHR ''+''" "c \<noteq> CHR ''-''"
      by (auto simp add: isDigit_def)
    moreover have "trim (c # u) = c # u"
      using tr cu by simp
    moreover have "nonDecimalIntegerLiteral (c # u) = None"
      using nonDecimal_none [OF chars] cu by simp
    ultimately have "Number body = Fin q"
      using val cu by (simp add: Number_def Let_def)
    with False q show ?thesis
      by (simp add: body_def [symmetric] q_def [symmetric] signed_nonneg)
  next
    case True
    have "\<not> isWhiteSpace (hd (CHR ''-'' # body))"
      by (simp add: isWhiteSpace_def)
    moreover have "\<not> isWhiteSpace (last (CHR ''-'' # body))"
      using bne lst by (simp add: digit_not_whitespace)
    ultimately have tr: "trim (CHR ''-'' # body) = CHR ''-'' # body"
      by (intro trim_unchanged) simp_all
    have "nonDecimalIntegerLiteral (CHR ''-'' # body) = None"
      by (simp add: nonDecimalIntegerLiteral_def split: list.splits)
    then have "Number (CHR ''-'' # body) = jsNeg (Fin q)"
      using val by (simp add: Number_def Let_def tr)
    with True q show ?thesis
      by (simp add: body_def [symmetric] q_def [symmetric] jsNeg_Fin_nonneg)
  qed
qed

lemma Number_natDigits: "Number (natDigits n) = Fin (of_nat n)"
  using Number_decimal [of "natDigits n" "[]" False]
  by (simp add: natDigits_allDigits withFraction_def digitsVal_natDigits signed_nonneg)

section \<open>The order of a copied selection\<close>

lemma split_no_separator: "sep \<notin> set xs \<Longrightarrow> split sep xs = [xs]"
  by (induction xs) auto

lemma split_at_separator:
  "sep \<notin> set xs \<Longrightarrow> split sep (xs @ sep # ys) = xs # split sep ys"
  by (induction xs) auto

lemma dash_not_digit: "list_all isDigit ds \<Longrightarrow> CHR ''-'' \<notin> set ds"
  by (auto simp add: list_all_iff)

lemma floor_plus_half: "\<lfloor>of_int z + 1 / 2 :: rat\<rfloor> = z"
  by (rule floor_unique) simp_all

lemma roundedUnits_of_nat: "roundedUnits (of_nat n) k = n * 10 ^ k"
proof -
  have "(of_nat n :: rat) * 10 ^ k + 1 / 2 = of_int (int (n * 10 ^ k)) + 1 / 2"
    by simp
  then show ?thesis
    by (simp only: roundedUnits_def floor_plus_half nat_int)
qed

lemma stripZeros_zeros: "stripZeros 0 (replicate k CHR ''0'') = []"
  by (simp add: stripZeros_def)

lemma numberToString_of_nat: "numberToString (Fin (of_nat n)) = natDigits n"
  by (simp add: numberToString_def integerDigits_def fractionDigits_def roundedUnits_of_nat
      fixedDigits_zero stripZeros_zeros withFraction_def)

lemma cellId_digits: "cellId r c = natDigits r @ CHR ''-'' # natDigits c"
  by (simp add: cellId_def numberToString_of_nat)

lemma idParts_cellId: "idParts (cellId r c) = (Some (Fin (of_nat r)), Some (Fin (of_nat c)))"
  by (simp add: idParts_def cellId_digits split_at_separator split_no_separator
      dash_not_digit natDigits_digits Number_natDigits element_def)

lemma compareIds_cellId:
  "isPositive (compareIds (cellId r c) (cellId r' c')) = ((r', c') < (r, c))"
  by (auto simp add: compareIds_def idParts_cellId notSame_def minus_def strictNotEqual_def
      isZero_def jsSub_def isFinite_def isPositive_def Let_def)

lemma insertBy_insort:
  "insertBy compareIds (cellIdOf x) (map cellIdOf ys) = map cellIdOf (insort x ys)"
proof (induction ys)
  case Nil
  then show ?case by simp
next
  case (Cons y ys)
  have "isPositive (compareIds (cellIdOf x) (cellIdOf y)) = (\<not> x \<le> y)"
    using compareIds_cellId [of "fst x" "snd x" "fst y" "snd y"]
    by (simp add: cellIdOf_def not_le)
  with Cons show ?case
    by simp
qed

lemma sortBy_sort: "sortBy compareIds (map cellIdOf cells) = map cellIdOf (sort cells)"
  by (induction cells) (simp_all add: sortBy_def sort_key_def insertBy_insort)

lemma arrayGet_of_nat: "arrayGet xs (Some (Fin (of_nat i))) = element xs i"
  by (simp add: arrayGet_def)

lemma selectedValue_cell:
  assumes "fst cell < length (rows t)" and "snd cell < length (headers t)"
  shows "selectedValue options t (cellIdOf cell) = cellText options t cell"
  using assms
  by (simp add: selectedValue_def cellIdOf_def idParts_cellId arrayGet_of_nat element_def
      cellText_def)

lemma mapResult_cong:
  "(\<And>x. x \<in> set xs \<Longrightarrow> f (g x) = h x) \<Longrightarrow> mapResult f (map g xs) = mapResult h xs"
  by (induction xs) (auto split: sum.splits)

lemma copySelected_sorted:
  assumes "\<forall>cell \<in> set cells. fst cell < length (rows t) \<and> snd cell < length (headers t)"
  shows "handleCopySelected options (Some t) (map cellIdOf cells)
         = (case mapResult (cellText options t) (sort cells) of
              Inl e \<Rightarrow> Inl e
            | Inr lines \<Rightarrow> Inr (Some (join [CHR 0x0A] lines)))"
proof -
  have "mapResult (selectedValue options t) (map cellIdOf (sort cells))
        = mapResult (cellText options t) (sort cells)"
    using assms by (intro mapResult_cong selectedValue_cell) auto
  then show ?thesis
    by (simp add: handleCopySelected_def sortBy_sort)
qed

text \<open>
  Claim C6. For every set of selected cells of the active table, in whatever order they
  were selected, the copy of the selection emits the formatted value of each selected cell,
  separators stripped, one per line, in the order of ascending row index and then ascending
  column index.
\<close>

theorem copy_selection_in_reading_order:
  assumes "distinct cells"
    and "\<forall>cell \<in> set cells. fst cell < length (rows t) \<and> snd cell < length (headers t)"
  shows "handleCopySelected options (Some t) (map cellIdOf cells)
         = (case mapResult (cellText options t) (sorted_list_of_set (set cells)) of
              Inl e \<Rightarrow> Inl e
            | Inr lines \<Rightarrow> Inr (Some (join [CHR 0x0A] lines)))
       \<and> (\<forall>other. distinct other \<and> set other = set cells \<longrightarrow>
            handleCopySelected options (Some t) (map cellIdOf other)
            = handleCopySelected options (Some t) (map cellIdOf cells))"
proof -
  have canonical: "sort xs = sorted_list_of_set (set cells)"
    if "distinct xs" "set xs = set cells" for xs :: "(nat \<times> nat) list"
    using that sorted_list_of_set_sort_remdups [of xs] by (simp add: distinct_remdups_id)
  have "handleCopySelected options (Some t) (map cellIdOf xs)
        = (case mapResult (cellText options t) (sorted_list_of_set (set cells)) of
             Inl e \<Rightarrow> Inl e
           | Inr lines \<Rightarrow> Inr (Some (join [CHR 0x0A] lines)))"
    if "distinct xs" "set xs = set cells" for xs
    using that assms(2) by (simp add: copySelected_sorted canonical)
  with assms(1) show ?thesis
    by simp
qed

theorem copy_selection_in_reading_order_witness:
  "distinct [(2, 1), (0, 0), (1, 3 :: nat)]
   \<and> map cellIdOf [(2, 1), (0, 0), (1, 3)] = [''2-1'', ''0-0'', ''1-3'']
   \<and> handleCopySelected initialOptions
        (Some \<lparr> headers = [''A'', ''B'', ''C'', ''D''],
                rows = [[''A'' \<mapsto> Str ''x''], [''D'' \<mapsto> Str ''1,000''], [''B'' \<mapsto> Str ''(2.5)'']],
                title = None, summary = None \<rparr>)
        [''2-1'', ''0-0'', ''1-3'']
      = Inr (Some (''x'' @ [CHR 0x0A] @ ''1000.00'' @ [CHR 0x0A] @ ''-2.50''))
   \<and> handleCopySelected initialOptions
        (Some \<lparr> headers = [''A'', ''B'', ''C'', ''D''],
                rows = [[''A'' \<mapsto> Str ''x''], [''D'' \<mapsto> Str ''1,000''], [''B'' \<mapsto> Str ''(2.5)'']],
                title = None, summary = None \<rparr>)
        [''1-3'', ''2-1'', ''0-0'']
      = Inr (Some (''x'' @ [CHR 0x0A] @ ''1000.00'' @ [CHR 0x0A] @ ''-2.50''))"
  using copy_selection_in_reading_order [of "[(2, 1), (0, 0), (1, 3)]"
      "\<lparr> headers = [''A'', ''B'', ''C'', ''D''],
         rows = [[''A'' \<mapsto> Str ''x''], [''D'' \<mapsto> Str ''1,000''], [''B'' \<mapsto> Str ''(2.5)'']],
         title = None, summary = None \<rparr>" initialOptions]
  by (simp add: cellIdOf_def initialOptions_def string_eval number_eval format_eval export_eval)

section \<open>Rendering and reading back\<close>

lemma removeCommas_append [simp]: "removeCommas (a @ b) = removeCommas a @ removeCommas b"
  by (simp add: removeCommas_def)

lemma removeCommas_comma [simp]: "removeCommas (CHR '','' # s) = removeCommas s"
  by (simp add: removeCommas_def)
































subsection \<open>Finite numbers and the transform pipeline\<close>









lemma ten_billion: "(10000000000 :: rat) = 10 ^ 10"
  by simp












subsection \<open>Formatting a rendered value again\<close>


















end
